theory Spec2Isabelle
  imports Complex_Main
begin

section \<open>Flight performance calculator (flight\_calculator.cpp)\<close>

text \<open>
  The calculator works on C++ \<^verbatim>\<open>double\<close> values. They are modelled as exact real
  numbers: rounding, overflow and the sign of zero are not modelled, and a function with
  finite arguments takes them as \<^typ>\<open>real\<close>. Two places go beyond that.
  \<^item> \<^verbatim>\<open>calculate_envelope\<close> divides by a cosine without a guard and takes the square
    root of a load factor that can be negative, and \<^verbatim>\<open>std::stod\<close> in \<^verbatim>\<open>main\<close>
    accepts \<^verbatim>\<open>inf\<close> and \<^verbatim>\<open>nan\<close>. Its values are of type \<open>dbl\<close>: a real number,
    an infinity or NaN, with the IEEE-754 rules for the operations the code applies.
    \<open>calculate_envelope\<close> is the function on finite arguments,
    \<open>calculate_envelope_dbl\<close> the function on all doubles. The exact cosine vanishes at
    a bank angle of 90 degrees, where the cosine of the rounded double does not.
  \<^item> The loops of \<^verbatim>\<open>normalize_angle\<close> add and subtract 360 until the angle is in
    range. \<open>normalize_angle\<close> has the loops on exact reals, where every step makes
    progress; \<open>normalize_angle_double\<close> has them with each sum and difference rounded
    to the nearest double, where a step can leave the angle unchanged.
\<close>

subsection \<open>Constants\<close>

definition DEG_TO_RAD :: real where
  "DEG_TO_RAD = pi / 180"

definition RAD_TO_DEG :: real where
  "RAD_TO_DEG = 180 / pi"

definition GRAVITY :: real where
  "GRAVITY = 980665 / 100000"

definition KTS_TO_MS :: real where
  "KTS_TO_MS = 514444 / 1000000"

definition FT_TO_M :: real where
  "FT_TO_M = 3048 / 10000"

definition M_TO_FT :: real where
  "M_TO_FT = 328084 / 100000"

subsection \<open>Doubles with special values\<close>

datatype dbl = Finite real | PosInf | NegInf | NaN

fun dsub :: "dbl \<Rightarrow> dbl \<Rightarrow> dbl" where
  "dsub NaN _ = NaN"
| "dsub _ NaN = NaN"
| "dsub (Finite a) (Finite b) = Finite (a - b)"
| "dsub (Finite a) PosInf = NegInf"
| "dsub (Finite a) NegInf = PosInf"
| "dsub PosInf PosInf = NaN"
| "dsub PosInf _ = PosInf"
| "dsub NegInf NegInf = NaN"
| "dsub NegInf _ = NegInf"

fun dmul :: "dbl \<Rightarrow> dbl \<Rightarrow> dbl" where
  "dmul NaN _ = NaN"
| "dmul _ NaN = NaN"
| "dmul (Finite a) (Finite b) = Finite (a * b)"
| "dmul (Finite a) PosInf = (if a = 0 then NaN else if 0 < a then PosInf else NegInf)"
| "dmul (Finite a) NegInf = (if a = 0 then NaN else if 0 < a then NegInf else PosInf)"
| "dmul PosInf (Finite b) = (if b = 0 then NaN else if 0 < b then PosInf else NegInf)"
| "dmul NegInf (Finite b) = (if b = 0 then NaN else if 0 < b then NegInf else PosInf)"
| "dmul PosInf PosInf = PosInf"
| "dmul PosInf NegInf = NegInf"
| "dmul NegInf PosInf = NegInf"
| "dmul NegInf NegInf = PosInf"

text \<open>Division: a zero divisor is taken as \<^verbatim>\<open>+0.0\<close>.\<close>

fun ddiv :: "dbl \<Rightarrow> dbl \<Rightarrow> dbl" where
  "ddiv NaN _ = NaN"
| "ddiv _ NaN = NaN"
| "ddiv (Finite a) (Finite b) =
     (if b = 0 then (if a = 0 then NaN else if 0 < a then PosInf else NegInf)
      else Finite (a / b))"
| "ddiv (Finite a) PosInf = Finite 0"
| "ddiv (Finite a) NegInf = Finite 0"
| "ddiv PosInf (Finite b) = (if 0 \<le> b then PosInf else NegInf)"
| "ddiv NegInf (Finite b) = (if 0 \<le> b then NegInf else PosInf)"
| "ddiv PosInf _ = NaN"
| "ddiv NegInf _ = NaN"

fun dsqrt :: "dbl \<Rightarrow> dbl" where
  "dsqrt (Finite a) = (if a < 0 then NaN else Finite (sqrt a))"
| "dsqrt PosInf = PosInf"
| "dsqrt NegInf = NaN"
| "dsqrt NaN = NaN"

text \<open>Comparisons: every comparison with NaN is false.\<close>

fun dless :: "dbl \<Rightarrow> dbl \<Rightarrow> bool" where
  "dless NaN _ = False"
| "dless _ NaN = False"
| "dless (Finite a) (Finite b) = (a < b)"
| "dless (Finite a) PosInf = True"
| "dless NegInf (Finite b) = True"
| "dless NegInf PosInf = True"
| "dless _ _ = False"

fun dle :: "dbl \<Rightarrow> dbl \<Rightarrow> bool" where
  "dle NaN _ = False"
| "dle _ NaN = False"
| "dle (Finite a) (Finite b) = (a \<le> b)"
| "dle NegInf _ = True"
| "dle _ PosInf = True"
| "dle _ _ = False"

text \<open>
  \<^verbatim>\<open>std::min\<close> over an initializer list: the first element, replaced by each later
  element that compares less than the smallest so far.
\<close>

fun std_min :: "dbl \<Rightarrow> dbl list \<Rightarrow> dbl" where
  "std_min smallest [] = smallest"
| "std_min smallest (v # vs) = std_min (if dless v smallest then v else smallest) vs"

subsection \<open>Vector2D\<close>

record Vector2D =
  vec_x :: real
  vec_y :: real

definition magnitude :: "Vector2D \<Rightarrow> real" where
  "magnitude v = sqrt (vec_x v * vec_x v + vec_y v * vec_y v)"

definition vector_subtract :: "Vector2D \<Rightarrow> Vector2D \<Rightarrow> Vector2D" where
  "vector_subtract v other = \<lparr>vec_x = vec_x v - vec_x other, vec_y = vec_y v - vec_y other\<rparr>"

subsection \<open>normalize\_angle\<close>

text \<open>
  \<^verbatim>\<open>while (angle < 0) angle += 360.0;
while (angle >= 360.0) angle -= 360.0;\<close>
  Each loop is a recursive function; the second runs on the result of the first.
\<close>

function normalize_angle_loop1 :: "real \<Rightarrow> real" where
  "normalize_angle_loop1 angle =
     (if angle < 0 then normalize_angle_loop1 (angle + 360) else angle)"
  by pat_completeness auto
termination
proof (relation "measure (\<lambda>angle. nat \<lceil>- (angle / 360)\<rceil>)")
  show "wf (measure (\<lambda>angle::real. nat \<lceil>- (angle / 360)\<rceil>))" by simp
next
  fix angle :: real
  assume neg: "angle < 0"
  have step: "- ((angle + 360) / 360) = - (angle / 360) - 1" by (simp add: field_simps)
  have "0 < - (angle / 360)" using neg by simp
  then have "0 < \<lceil>- (angle / 360)\<rceil>" by (simp add: less_ceiling_iff)
  then have "nat \<lceil>- ((angle + 360) / 360)\<rceil> < nat \<lceil>- (angle / 360)\<rceil>"
    unfolding step by simp
  then show "(angle + 360, angle) \<in> measure (\<lambda>angle. nat \<lceil>- (angle / 360)\<rceil>)"
    by simp
qed

function normalize_angle_loop2 :: "real \<Rightarrow> real" where
  "normalize_angle_loop2 angle =
     (if 360 \<le> angle then normalize_angle_loop2 (angle - 360) else angle)"
  by pat_completeness auto
termination
proof (relation "measure (\<lambda>angle. nat \<lfloor>angle / 360\<rfloor>)")
  show "wf (measure (\<lambda>angle::real. nat \<lfloor>angle / 360\<rfloor>))" by simp
next
  fix angle :: real
  assume ge: "360 \<le> angle"
  have step: "(angle - 360) / 360 = angle / 360 - 1" by (simp add: field_simps)
  have "1 \<le> angle / 360" using ge by simp
  then have "1 \<le> \<lfloor>angle / 360\<rfloor>" by (simp add: le_floor_iff)
  then have "nat \<lfloor>(angle - 360) / 360\<rfloor> < nat \<lfloor>angle / 360\<rfloor>"
    unfolding step by simp
  then show "(angle - 360, angle) \<in> measure (\<lambda>angle. nat \<lfloor>angle / 360\<rfloor>)"
    by simp
qed

definition normalize_angle :: "real \<Rightarrow> real" where
  "normalize_angle angle = normalize_angle_loop2 (normalize_angle_loop1 angle)"

text \<open>
  The number of times the two loop bodies run, by the same recursion as the loops.
\<close>

function loop1_iterations :: "real \<Rightarrow> nat" where
  "loop1_iterations angle =
     (if angle < 0 then Suc (loop1_iterations (angle + 360)) else 0)"
  by pat_completeness auto
termination
proof (relation "measure (\<lambda>angle. nat \<lceil>- (angle / 360)\<rceil>)")
  show "wf (measure (\<lambda>angle::real. nat \<lceil>- (angle / 360)\<rceil>))" by simp
next
  fix angle :: real
  assume neg: "angle < 0"
  have step: "- ((angle + 360) / 360) = - (angle / 360) - 1" by (simp add: field_simps)
  have "0 < - (angle / 360)" using neg by simp
  then have "0 < \<lceil>- (angle / 360)\<rceil>" by (simp add: less_ceiling_iff)
  then have "nat \<lceil>- ((angle + 360) / 360)\<rceil> < nat \<lceil>- (angle / 360)\<rceil>"
    unfolding step by simp
  then show "(angle + 360, angle) \<in> measure (\<lambda>angle. nat \<lceil>- (angle / 360)\<rceil>)"
    by simp
qed

function loop2_iterations :: "real \<Rightarrow> nat" where
  "loop2_iterations angle =
     (if 360 \<le> angle then Suc (loop2_iterations (angle - 360)) else 0)"
  by pat_completeness auto
termination
proof (relation "measure (\<lambda>angle. nat \<lfloor>angle / 360\<rfloor>)")
  show "wf (measure (\<lambda>angle::real. nat \<lfloor>angle / 360\<rfloor>))" by simp
next
  fix angle :: real
  assume ge: "360 \<le> angle"
  have step: "(angle - 360) / 360 = angle / 360 - 1" by (simp add: field_simps)
  have "1 \<le> angle / 360" using ge by simp
  then have "1 \<le> \<lfloor>angle / 360\<rfloor>" by (simp add: le_floor_iff)
  then have "nat \<lfloor>(angle - 360) / 360\<rfloor> < nat \<lfloor>angle / 360\<rfloor>"
    unfolding step by simp
  then show "(angle - 360, angle) \<in> measure (\<lambda>angle. nat \<lfloor>angle / 360\<rfloor>)"
    by simp
qed

definition normalize_angle_iterations :: "real \<Rightarrow> nat" where
  "normalize_angle_iterations angle =
     loop1_iterations angle + loop2_iterations (normalize_angle_loop1 angle)"

subsection \<open>Wind vector\<close>

text \<open>
  \<^verbatim>\<open>std::atan2(y, x)\<close> of the C++ standard library on exact reals: the angle of the
  point \<open>(x, y)\<close> in \<open>(-\<pi>, \<pi>]\<close>, and 0 at the origin.
\<close>

definition atan2 :: "real \<Rightarrow> real \<Rightarrow> real" where
  "atan2 y x =
     (if 0 < x then arctan (y / x)
      else if x < 0 then (if 0 \<le> y then arctan (y / x) + pi else arctan (y / x) - pi)
      else if 0 < y then pi / 2
      else if y < 0 then - (pi / 2)
      else 0)"

record WindData =
  speed_kts :: real
  direction_from :: real
  headwind :: real
  crosswind :: real
  gust_factor :: real

text \<open>
  The copy of the history into the freshly allocated buffer,
  \<^verbatim>\<open>for (size_t i = 0; i < ias_history.size(); ++i) history_buffer[i] = ias_history[i];\<close>
\<close>

function copy_loop :: "real list \<Rightarrow> nat \<Rightarrow> real list \<Rightarrow> real list" where
  "copy_loop ias_history i history_buffer =
     (if i < length ias_history
      then copy_loop ias_history (Suc i) (history_buffer[i := ias_history ! i])
      else history_buffer)"
  by pat_completeness auto
termination
  by (relation "measure (\<lambda>(ias_history, i, history_buffer). length ias_history - i)") auto

text \<open>
  The scan for the peak and the sum; \<open>n\<close> is \<^verbatim>\<open>ias_history.size()\<close>.
\<close>

function gust_loop :: "real list \<Rightarrow> nat \<Rightarrow> nat \<Rightarrow> real \<Rightarrow> real \<Rightarrow> real \<times> real" where
  "gust_loop history_buffer n i max_ias sum_ias =
     (if i < n
      then gust_loop history_buffer n (Suc i)
             (if max_ias < history_buffer ! i then history_buffer ! i else max_ias)
             (sum_ias + history_buffer ! i)
      else (max_ias, sum_ias))"
  by pat_completeness auto
termination
  by (relation "measure (\<lambda>(history_buffer, n, i, max_ias, sum_ias). n - i)") auto

text \<open>
  The gust block of \<^verbatim>\<open>calculate_wind_vector\<close>
  (\<^verbatim>\<open>if (!ias_history.empty()) { ... } else { result.gust_factor = 0.0; }\<close>), the
  value it stores in \<^verbatim>\<open>result.gust_factor\<close>. The buffer from
  \<^verbatim>\<open>std::make_unique<double[]>(n)\<close> starts as \<open>n\<close> zeros.
\<close>

definition calculate_gust_factor :: "real list \<Rightarrow> real" where
  "calculate_gust_factor ias_history =
     (if ias_history \<noteq> [] then
        (let n = length ias_history;
             history_buffer = copy_loop ias_history 0 (replicate n 0);
             (max_ias, sum_ias) = gust_loop history_buffer n 0 0 0;
             avg_ias = sum_ias / real n
         in max_ias - avg_ias)
      else 0)"

definition calculate_wind_vector :: "real \<Rightarrow> real \<Rightarrow> real \<Rightarrow> real \<Rightarrow> real list \<Rightarrow> WindData" where
  "calculate_wind_vector tas_kts gs_kts heading_deg track_deg ias_history =
     (let psi_rad = heading_deg * DEG_TO_RAD;
          chi_rad = track_deg * DEG_TO_RAD;
          air_vec = \<lparr>vec_x = tas_kts * sin psi_rad, vec_y = tas_kts * cos psi_rad\<rparr>;
          ground_vec = \<lparr>vec_x = gs_kts * sin chi_rad, vec_y = gs_kts * cos chi_rad\<rparr>;
          wind_vec = vector_subtract ground_vec air_vec;
          speed = magnitude wind_vec;
          wind_to_rad = atan2 (vec_x wind_vec) (vec_y wind_vec);
          dir_from = normalize_angle (wind_to_rad * RAD_TO_DEG + 180);
          rel_wind_rad = (dir_from + 180 - track_deg) * DEG_TO_RAD
      in \<lparr>speed_kts = speed,
          direction_from = dir_from,
          headwind = - speed * cos rel_wind_rad,
          crosswind = speed * sin rel_wind_rad,
          gust_factor = calculate_gust_factor ias_history\<rparr>)"

subsection \<open>Envelope margins\<close>

record EnvelopeMargins =
  stall_margin_pct :: dbl
  vmo_margin_pct :: dbl
  mmo_margin_pct :: dbl
  min_margin_pct :: dbl
  corner_speed_kts :: dbl
  current_load_factor :: dbl

definition calculate_envelope ::
  "real \<Rightarrow> real \<Rightarrow> real \<Rightarrow> real \<Rightarrow> real \<Rightarrow> real \<Rightarrow> real \<Rightarrow> real \<Rightarrow> real \<Rightarrow> EnvelopeMargins" where
  "calculate_envelope weight_kg bank_deg ias_kts tas_kts mach altitude_ft vso_kts vne_kts mmo =
     (let bank_rad = bank_deg * DEG_TO_RAD;
          load_factor = ddiv (Finite 1) (Finite (cos bank_rad));
          vs_current = dmul (Finite vso_kts) (dsqrt load_factor);
          stall = (if dless (Finite 0) vs_current
                   then dmul (ddiv (dsub (Finite ias_kts) vs_current) vs_current) (Finite 100)
                   else Finite 100);
          vmo = (if 0 < vne_kts then Finite (((vne_kts - ias_kts) / vne_kts) * 100)
                 else Finite 100);
          mmo_margin = (if 0 < mmo then Finite (((mmo - mach) / mmo) * 100)
                        else Finite 100)
      in \<lparr>stall_margin_pct = stall,
          vmo_margin_pct = vmo,
          mmo_margin_pct = mmo_margin,
          min_margin_pct = std_min stall [vmo, mmo_margin],
          corner_speed_kts = Finite (vso_kts * sqrt (5 / 2)),
          current_load_factor = load_factor\<rparr>)"

subsection \<open>Energy state\<close>

datatype EnergyTrend = Decreasing | Stable | Increasing

record EnergyData =
  specific_energy_ft :: real
  specific_energy_rate :: real
  trend :: EnergyTrend

definition calculate_energy :: "real \<Rightarrow> real \<Rightarrow> real \<Rightarrow> EnergyData" where
  "calculate_energy tas_kts altitude_ft vs_fpm =
     (let v_ms = tas_kts * KTS_TO_MS;
          h_m = altitude_ft * FT_TO_M;
          ke_m = (v_ms * v_ms) / (2 * GRAVITY);
          specific_energy_m = ke_m + h_m;
          rate = vs_fpm
      in \<lparr>specific_energy_ft = specific_energy_m * M_TO_FT,
          specific_energy_rate = rate,
          trend = (if 50 < rate then Increasing
                   else if rate < - 50 then Decreasing
                   else Stable)\<rparr>)"

subsection \<open>Glide reach\<close>

record GlideData =
  max_range_nm :: real
  max_range_with_wind_nm :: real
  glide_ratio :: real
  best_glide_speed_kts :: real

definition calculate_glide_reach :: "real \<Rightarrow> real \<Rightarrow> real \<Rightarrow> real \<Rightarrow> GlideData" where
  "calculate_glide_reach agl_ft tas_kts weight_kg headwind_kts =
     (let ratio = 12;
          best_glide = 75;
          altitude_nm = agl_ft / 6076;
          max_range = altitude_nm * ratio;
          wind_factor = (if 0 < best_glide then 1 - headwind_kts / best_glide else 1);
          with_wind = max_range * wind_factor
      in \<lparr>max_range_nm = max_range,
          max_range_with_wind_nm = (if with_wind < 0 then 0 else with_wind),
          glide_ratio = ratio,
          best_glide_speed_kts = best_glide\<rparr>)"

subsection \<open>normalize\_angle in double arithmetic\<close>

text \<open>
  Rounding to the nearest double, ties to even: a double in the binade
  \<open>[2\<^sup>e, 2\<^sup>e\<^sup>+\<^sup>1)\<close> is a multiple of \<open>2\<^sup>e\<^sup>-\<^sup>5\<^sup>2\<close>. The exponent range is not bounded:
  for a double angle the sums and differences of the two loops are neither subnormal nor
  out of range.
\<close>

definition round_ties_even :: "real \<Rightarrow> int" where
  "round_ties_even y =
     (let f = \<lfloor>y\<rfloor>; d = y - of_int f
      in if d < 1 / 2 then f
         else if 1 / 2 < d then f + 1
         else if even f then f else f + 1)"

definition double_spacing :: "real \<Rightarrow> real" where
  "double_spacing x = 2 powr of_int (\<lfloor>log 2 \<bar>x\<bar>\<rfloor> - 52)"

definition round_double :: "real \<Rightarrow> real" where
  "round_double x =
     (if x = 0 then 0
      else of_int (round_ties_even (x / double_spacing x)) * double_spacing x)"

text \<open>
  The two loops with the rounded \<^verbatim>\<open>angle += 360.0\<close> and \<^verbatim>\<open>angle -= 360.0\<close>. A loop
  that does not terminate has the value \<open>None\<close>.
\<close>

partial_function (option) normalize_angle_double_loop1 :: "real \<Rightarrow> real option" where
  "normalize_angle_double_loop1 angle =
     (if angle < 0 then normalize_angle_double_loop1 (round_double (angle + 360))
      else Some angle)"

partial_function (option) normalize_angle_double_loop2 :: "real \<Rightarrow> real option" where
  "normalize_angle_double_loop2 angle =
     (if 360 \<le> angle then normalize_angle_double_loop2 (round_double (angle - 360))
      else Some angle)"

definition normalize_angle_double :: "real \<Rightarrow> real option" where
  "normalize_angle_double angle =
     (case normalize_angle_double_loop1 angle of
        None \<Rightarrow> None
      | Some a \<Rightarrow> normalize_angle_double_loop2 a)"

subsection \<open>Envelope margins on all doubles\<close>

text \<open>
  \<^verbatim>\<open>std::cos\<close> of an infinity or of NaN is NaN.
\<close>

fun dcos :: "dbl \<Rightarrow> dbl" where
  "dcos (Finite a) = Finite (cos a)"
| "dcos _ = NaN"

text \<open>
  \<^verbatim>\<open>calculate_envelope\<close> with every operation on \<open>dbl\<close>, for arguments that may be
  infinite or NaN.
\<close>

definition calculate_envelope_dbl ::
  "dbl \<Rightarrow> dbl \<Rightarrow> dbl \<Rightarrow> dbl \<Rightarrow> dbl \<Rightarrow> dbl \<Rightarrow> dbl \<Rightarrow> dbl \<Rightarrow> dbl \<Rightarrow> EnvelopeMargins" where
  "calculate_envelope_dbl weight_kg bank_deg ias_kts tas_kts mach altitude_ft vso_kts vne_kts mmo =
     (let bank_rad = dmul bank_deg (Finite DEG_TO_RAD);
          load_factor = ddiv (Finite 1) (dcos bank_rad);
          vs_current = dmul vso_kts (dsqrt load_factor);
          stall = (if dless (Finite 0) vs_current
                   then dmul (ddiv (dsub ias_kts vs_current) vs_current) (Finite 100)
                   else Finite 100);
          vmo = (if dless (Finite 0) vne_kts
                 then dmul (ddiv (dsub vne_kts ias_kts) vne_kts) (Finite 100)
                 else Finite 100);
          mmo_margin = (if dless (Finite 0) mmo
                        then dmul (ddiv (dsub mmo mach) mmo) (Finite 100)
                        else Finite 100)
      in \<lparr>stall_margin_pct = stall,
          vmo_margin_pct = vmo,
          mmo_margin_pct = mmo_margin,
          min_margin_pct = std_min stall [vmo, mmo_margin],
          corner_speed_kts = dmul vso_kts (Finite (sqrt (5 / 2))),
          current_load_factor = load_factor\<rparr>)"

subsection \<open>Unfolding of the loops\<close>

text \<open>
  The loop equations are unconditional equations of a function in terms of itself; they
  are unfolded one step at a time, where a proof asks for it.
\<close>

declare normalize_angle_loop1.simps [simp del]
declare normalize_angle_loop2.simps [simp del]
declare loop1_iterations.simps [simp del]
declare loop2_iterations.simps [simp del]
declare copy_loop.simps [simp del]
declare gust_loop.simps [simp del]

section \<open>Properties\<close>

subsection \<open>Angle normalization\<close>

lemma loop1_fixed: "0 \<le> a \<Longrightarrow> normalize_angle_loop1 a = a"
  by (simp add: normalize_angle_loop1.simps [of a])

lemma loop2_fixed: "a < 360 \<Longrightarrow> normalize_angle_loop2 a = a"
  by (simp add: normalize_angle_loop2.simps [of a])

lemma loop1_range:
  "0 \<le> normalize_angle_loop1 a \<and> (a < 360 \<longrightarrow> normalize_angle_loop1 a < 360)"
proof (induction a rule: normalize_angle_loop1.induct)
  case (1 angle)
  show ?case
  proof (cases "angle < 0")
    case True
    then show ?thesis using "1.IH" by (simp add: normalize_angle_loop1.simps [of angle])
  next
    case False
    then show ?thesis by (simp add: normalize_angle_loop1.simps [of angle])
  qed
qed

lemma loop2_range:
  "0 \<le> a \<Longrightarrow> 0 \<le> normalize_angle_loop2 a \<and> normalize_angle_loop2 a < 360"
proof (induction a rule: normalize_angle_loop2.induct)
  case (1 angle)
  show ?case
  proof (cases "360 \<le> angle")
    case True
    then show ?thesis using "1.IH" by (simp add: normalize_angle_loop2.simps [of angle])
  next
    case False
    then show ?thesis using "1.prems" by (simp add: normalize_angle_loop2.simps [of angle])
  qed
qed

lemma normalize_angle_range: "0 \<le> normalize_angle x \<and> normalize_angle x < 360"
  unfolding normalize_angle_def using loop1_range loop2_range by blast

lemma normalize_angle_fixed: "0 \<le> a \<Longrightarrow> a < 360 \<Longrightarrow> normalize_angle a = a"
  by (simp add: normalize_angle_def loop1_fixed loop2_fixed)

text \<open>
  On exact reals \<open>normalize_angle\<close> returns a value in the half-open interval
  \<open>[0, 360)\<close> for every input, and normalizing a normalized angle changes nothing.
\<close>

lemma normalize_angle_exact_range_idempotent:
  "0 \<le> normalize_angle x \<and> normalize_angle x < 360
   \<and> normalize_angle (normalize_angle x) = normalize_angle x"
  using normalize_angle_range [of x] normalize_angle_fixed [of "normalize_angle x"] by simp

subsection \<open>Angle normalization in double arithmetic\<close>

lemma floor_log2_between:
  fixes x :: real
  assumes "2 ^ n \<le> x" and "x < 2 ^ Suc n"
  shows "\<lfloor>log 2 x\<rfloor> = int n"
proof -
  have pos: "0 < x" using assms(1) by (meson less_le_trans zero_less_numeral zero_less_power)
  have "real n \<le> log 2 x"
    using assms(1) pos by (simp add: le_log_iff powr_realpow)
  moreover have "log 2 x < real n + 1"
  proof -
    have "x < 2 powr (real n + 1)"
      using assms(2) by (simp add: powr_add powr_realpow)
    then show ?thesis using pos by (simp add: log_less_iff)
  qed
  ultimately show ?thesis by (intro floor_unique) simp_all
qed

lemma spacing_near_1e22:
  fixes x :: real
  assumes "2 ^ 73 \<le> \<bar>x\<bar>" and "\<bar>x\<bar> < 2 ^ 74"
  shows "double_spacing x = 2097152"
proof -
  have "\<lfloor>log 2 \<bar>x\<bar>\<rfloor> = int 73"
    using assms by (intro floor_log2_between) simp_all
  then have "double_spacing x = 2 powr 21" by (simp add: double_spacing_def)
  also have "\<dots> = 2 ^ 21" by (simp add: powr_realpow [of 2 21, symmetric])
  finally show ?thesis by simp
qed

lemma round_double_1e22: "round_double (10 ^ 22) = 10 ^ 22"
proof -
  have sp: "double_spacing (10 ^ 22) = 2097152"
    by (rule spacing_near_1e22) simp_all
  have q: "(10 ^ 22 :: real) / 2097152 = of_int 4768371582031250" by simp
  have "round_ties_even (of_int 4768371582031250) = 4768371582031250"
    unfolding round_ties_even_def Let_def floor_of_int by simp
  then show ?thesis
    unfolding round_double_def sp q by simp
qed

lemma round_double_below_1e22: "round_double (10 ^ 22 - 360) = 10 ^ 22"
proof -
  have sp: "double_spacing (10 ^ 22 - 360) = 2097152"
    by (rule spacing_near_1e22) simp_all
  have fl: "\<lfloor>(10 ^ 22 - 360 :: real) / 2097152\<rfloor> = 4768371582031249"
    by (rule floor_unique) simp_all
  have "round_ties_even ((10 ^ 22 - 360) / 2097152) = 4768371582031250"
    unfolding round_ties_even_def Let_def fl by simp
  then show ?thesis
    unfolding round_double_def sp by simp
qed

lemma round_double_above_minus_1e22: "round_double (- (10 ^ 22) + 360) = - (10 ^ 22)"
proof -
  have sp: "double_spacing (- (10 ^ 22) + 360) = 2097152"
    by (rule spacing_near_1e22) simp_all
  have fl: "\<lfloor>(- (10 ^ 22) + 360 :: real) / 2097152\<rfloor> = - 4768371582031250"
    by (rule floor_unique) simp_all
  have "round_ties_even ((- (10 ^ 22) + 360) / 2097152) = - 4768371582031250"
    unfolding round_ties_even_def Let_def fl by simp
  then show ?thesis
    unfolding round_double_def sp by simp
qed

lemma normalize_angle_double_loop1_exit: "\<not> a < 0 \<Longrightarrow> normalize_angle_double_loop1 a = Some a"
  by (subst normalize_angle_double_loop1.simps) simp

lemma normalize_angle_double_loop2_exit: "\<not> 360 \<le> a \<Longrightarrow> normalize_angle_double_loop2 a = Some a"
  by (subst normalize_angle_double_loop2.simps) simp

lemma normalize_angle_double_loop2_stuck:
  assumes ge: "360 \<le> a" and stuck: "round_double (a - 360) = a"
  shows "normalize_angle_double_loop2 a = None"
proof -
  have "x \<noteq> a" if h: "normalize_angle_double_loop2 x = Some y" for x y
  proof (rule normalize_angle_double_loop2.raw_induct [where P = "\<lambda>x y. x \<noteq> a", OF _ h])
    fix loop2 :: "real \<Rightarrow> real option" and angle result :: real
    assume IH: "\<And>x y. loop2 x = Some y \<Longrightarrow> x \<noteq> a"
    assume eq: "(if 360 \<le> angle then loop2 (round_double (angle - 360)) else Some angle)
                  = Some result"
    show "angle \<noteq> a"
    proof
      assume "angle = a"
      then have "loop2 a = Some result" using eq ge stuck by simp
      then show False using IH by blast
    qed
  qed
  then show ?thesis by (cases "normalize_angle_double_loop2 a") auto
qed

lemma normalize_angle_double_loop1_stuck:
  assumes neg: "a < 0" and stuck: "round_double (a + 360) = a"
  shows "normalize_angle_double_loop1 a = None"
proof -
  have "x \<noteq> a" if h: "normalize_angle_double_loop1 x = Some y" for x y
  proof (rule normalize_angle_double_loop1.raw_induct [where P = "\<lambda>x y. x \<noteq> a", OF _ h])
    fix loop1 :: "real \<Rightarrow> real option" and angle result :: real
    assume IH: "\<And>x y. loop1 x = Some y \<Longrightarrow> x \<noteq> a"
    assume eq: "(if angle < 0 then loop1 (round_double (angle + 360)) else Some angle)
                  = Some result"
    show "angle \<noteq> a"
    proof
      assume "angle = a"
      then have "loop1 a = Some result" using eq neg stuck by simp
      then show False using IH by blast
    qed
  qed
  then show ?thesis by (cases "normalize_angle_double_loop1 a") auto
qed

text \<open>Small angles: every step is exact and the loops return.\<close>

lemma round_double_exact_360:
  "round_double 360 = 360 \<and> round_double (720 - 360) = 360 \<and> round_double (360 - 360) = 0"
proof -
  have "\<lfloor>log 2 \<bar>360 :: real\<bar>\<rfloor> = int 8"
    by (intro floor_log2_between) simp_all
  then have "double_spacing 360 = 2 powr (- 44)" by (simp add: double_spacing_def)
  also have "\<dots> = 1 / 2 ^ 44"
    by (simp add: powr_minus powr_realpow [of 2 44, symmetric] inverse_eq_divide)
  finally have sp: "double_spacing 360 = 1 / 2 ^ 44" .
  have q: "(360 :: real) / (1 / 2 ^ 44) = of_int (360 * 2 ^ 44)" by simp
  have "round_ties_even (of_int (360 * 2 ^ 44)) = 360 * 2 ^ 44"
    unfolding round_ties_even_def Let_def floor_of_int by simp
  then have "round_double 360 = 360"
    unfolding round_double_def sp q by simp
  then show ?thesis by (simp add: round_double_def)
qed

lemma normalize_angle_double_small:
  "normalize_angle_double 10 = Some 10 \<and> normalize_angle_double 720 = Some 0"
proof -
  have r: "round_double (720 - 360) = 360" "round_double (360 - 360) = 0"
    using round_double_exact_360 by simp_all
  have "normalize_angle_double_loop2 720 = normalize_angle_double_loop2 360"
    by (subst normalize_angle_double_loop2.simps) (simp only: r, simp)
  also have "\<dots> = normalize_angle_double_loop2 0"
    by (subst normalize_angle_double_loop2.simps) (simp only: r, simp)
  also have "\<dots> = Some 0" by (rule normalize_angle_double_loop2_exit) simp
  finally have "normalize_angle_double_loop2 720 = Some 0" .
  then show ?thesis
    by (simp add: normalize_angle_double_def normalize_angle_double_loop1_exit normalize_angle_double_loop2_exit)
qed

text \<open>
  C6. The claim is that every finite input is mapped into \<open>[0, 360)\<close>. The double
  \<open>10\<^sup>2\<^sup>2\<close> is a finite input; doubles of that size are multiples of \<open>2\<^sup>2\<^sup>1\<close>, so
  \<open>10\<^sup>2\<^sup>2 - 360\<close> rounds back to \<open>10\<^sup>2\<^sup>2\<close>, the second loop makes no progress and
  \<open>normalize_angle\<close> does not return. The first loop does the same on \<open>-10\<^sup>2\<^sup>2\<close>.
\<close>

theorem normalize_angle_double_never_returns:
  "round_double (10 ^ 22) = 10 ^ 22
   \<and> normalize_angle_double (10 ^ 22) = None
   \<and> normalize_angle_double (- (10 ^ 22)) = None"
proof -
  have up: "normalize_angle_double_loop1 (10 ^ 22) = Some (10 ^ 22)"
    by (rule normalize_angle_double_loop1_exit) simp
  have "(360 :: real) \<le> 10 ^ 22" by simp
  then have "normalize_angle_double_loop2 (10 ^ 22) = None"
    using round_double_below_1e22 by (rule normalize_angle_double_loop2_stuck)
  then have pos: "normalize_angle_double (10 ^ 22) = None"
    unfolding normalize_angle_double_def up by simp
  have "- (10 ^ 22) < (0 :: real)" by simp
  then have "normalize_angle_double_loop1 (- (10 ^ 22)) = None"
    using round_double_above_minus_1e22 by (rule normalize_angle_double_loop1_stuck)
  then have neg: "normalize_angle_double (- (10 ^ 22)) = None"
    unfolding normalize_angle_double_def by simp
  show ?thesis using round_double_1e22 pos neg by blast
qed

subsection \<open>Iteration counts of the normalization loops\<close>

lemma loop1_iterations_eq: "loop1_iterations a = nat \<lceil>- (a / 360)\<rceil>"
proof (induction a rule: loop1_iterations.induct)
  case (1 a)
  show ?case
  proof (cases "a < 0")
    case True
    have step: "- ((a + 360) / 360) = - (a / 360) - 1" by (simp add: field_simps)
    have "0 < - (a / 360)" using True by simp
    then have pos: "0 < \<lceil>- (a / 360)\<rceil>" by (simp add: less_ceiling_iff)
    have "loop1_iterations a = Suc (nat \<lceil>- ((a + 360) / 360)\<rceil>)"
      using True "1.IH" by (simp add: loop1_iterations.simps [of a])
    also have "\<dots> = nat \<lceil>- (a / 360)\<rceil>"
      unfolding step using pos by linarith
    finally show ?thesis .
  next
    case False
    then have "- (a / 360) \<le> 0" by simp
    then have "\<lceil>- (a / 360)\<rceil> \<le> 0" by (simp add: ceiling_le_iff)
    then show ?thesis using False by (simp add: loop1_iterations.simps [of a])
  qed
qed

lemma loop2_iterations_eq: "loop2_iterations a = nat \<lfloor>a / 360\<rfloor>"
proof (induction a rule: loop2_iterations.induct)
  case (1 a)
  show ?case
  proof (cases "360 \<le> a")
    case True
    have step: "(a - 360) / 360 = a / 360 - 1" by (simp add: field_simps)
    have "1 \<le> a / 360" using True by simp
    then have pos: "1 \<le> \<lfloor>a / 360\<rfloor>" by (simp add: le_floor_iff)
    have "loop2_iterations a = Suc (nat \<lfloor>(a - 360) / 360\<rfloor>)"
      using True "1.IH" by (simp add: loop2_iterations.simps [of a])
    also have "\<dots> = nat \<lfloor>a / 360\<rfloor>"
      unfolding step using pos by linarith
    finally show ?thesis .
  next
    case False
    then have "a / 360 < 1" by simp
    then have "\<lfloor>a / 360\<rfloor> < 1" by (simp add: floor_less_iff)
    then show ?thesis using False by (simp add: loop2_iterations.simps [of a])
  qed
qed

lemma normalize_angle_iterations_eq:
  "normalize_angle_iterations a = nat \<lceil>- (a / 360)\<rceil> + nat \<lfloor>a / 360\<rfloor>"
proof (cases "a < 0")
  case True
  then have "normalize_angle_loop1 a < 360" "0 \<le> normalize_angle_loop1 a"
    using loop1_range [of a] by simp_all
  then have "loop2_iterations (normalize_angle_loop1 a) = 0"
    by (simp add: loop2_iterations.simps [of "normalize_angle_loop1 a"])
  moreover have "\<lfloor>a / 360\<rfloor> < 0" using True by (simp add: floor_less_iff)
  ultimately show ?thesis
    by (simp add: normalize_angle_iterations_def loop1_iterations_eq)
next
  case False
  then have "normalize_angle_loop1 a = a" by (simp add: loop1_fixed)
  moreover have "\<lceil>- (a / 360)\<rceil> \<le> 0" using False by (simp add: ceiling_le_iff)
  ultimately show ?thesis
    by (simp add: normalize_angle_iterations_def loop1_iterations_eq loop2_iterations_eq)
qed

lemma loop1_value: "normalize_angle_loop1 a = a + 360 * real (loop1_iterations a)"
proof (induction a rule: normalize_angle_loop1.induct)
  case (1 angle)
  show ?case
  proof (cases "angle < 0")
    case True
    then show ?thesis
      using "1.IH" by (simp add: normalize_angle_loop1.simps [of angle] loop1_iterations.simps [of angle])
  next
    case False
    then show ?thesis
      by (simp add: normalize_angle_loop1.simps [of angle] loop1_iterations.simps [of angle])
  qed
qed

lemma loop2_value: "normalize_angle_loop2 a = a - 360 * real (loop2_iterations a)"
proof (induction a rule: normalize_angle_loop2.induct)
  case (1 angle)
  show ?case
  proof (cases "360 \<le> angle")
    case True
    then show ?thesis
      using "1.IH" by (simp add: normalize_angle_loop2.simps [of angle] loop2_iterations.simps [of angle])
  next
    case False
    then show ?thesis
      by (simp add: normalize_angle_loop2.simps [of angle] loop2_iterations.simps [of angle])
  qed
qed

lemma normalize_angle_value:
  "normalize_angle a = a + 360 * real (loop1_iterations a)
                         - 360 * real (loop2_iterations (normalize_angle_loop1 a))"
proof -
  have "normalize_angle a
          = normalize_angle_loop1 a - 360 * real (loop2_iterations (normalize_angle_loop1 a))"
    unfolding normalize_angle_def by (rule loop2_value)
  then show ?thesis using loop1_value [of a] by linarith
qed

lemma normalize_angle_iterations_unbounded: "\<exists>a. B < normalize_angle_iterations a"
proof
  have "(360 * real (Suc B)) / 360 = real (Suc B)" by simp
  then have "\<lfloor>(360 * real (Suc B)) / 360\<rfloor> = int (Suc B)"
    by (simp only: floor_of_nat)
  then have "nat \<lfloor>(360 * real (Suc B)) / 360\<rfloor> = Suc B" by simp
  then show "B < normalize_angle_iterations (360 * real (Suc B))"
    unfolding normalize_angle_iterations_eq by linarith
qed

text \<open>
  C7. The claim is that normalization takes a number of steps that does not depend on the
  input: one reduction and at most one corrective addition. The loops of
  \<open>normalize_angle\<close> run once per full circle of the input instead: not at all for
  10 degrees, twice for -720 degrees and twenty times for 7200 degrees.
\<close>

theorem normalize_angle_iterations_vary:
  "normalize_angle_iterations 10 = 0 \<and> normalize_angle_iterations (- 720) = 2
   \<and> normalize_angle_iterations 7200 = 20"
  by (simp add: normalize_angle_iterations_eq)

subsection \<open>Wind vector\<close>

text \<open>
  C1. The wind vector is the ground vector (ground speed at bearing track, east = sin,
  north = cos) minus the air vector (true airspeed at bearing heading). The reported speed
  is its magnitude, the reported direction is \<open>normalize_angle\<close> of its \<open>atan2 x y\<close>
  in degrees plus 180, and headwind and crosswind are \<open>- speed * cos\<close> and
  \<open>speed * sin\<close> of the relative bearing \<open>direction_from + 180 - track\<close> in radians.
\<close>

theorem calculate_wind_vector_spec:
  "speed_kts (calculate_wind_vector tas_kts gs_kts heading_deg track_deg ias_history)
     = sqrt ((gs_kts * sin (track_deg * (pi / 180)) - tas_kts * sin (heading_deg * (pi / 180)))\<^sup>2
           + (gs_kts * cos (track_deg * (pi / 180)) - tas_kts * cos (heading_deg * (pi / 180)))\<^sup>2)
   \<and> speed_kts (calculate_wind_vector tas_kts gs_kts heading_deg track_deg ias_history)
     = magnitude (vector_subtract
         \<lparr>vec_x = gs_kts * sin (track_deg * (pi / 180)), vec_y = gs_kts * cos (track_deg * (pi / 180))\<rparr>
         \<lparr>vec_x = tas_kts * sin (heading_deg * (pi / 180)), vec_y = tas_kts * cos (heading_deg * (pi / 180))\<rparr>)
   \<and> direction_from (calculate_wind_vector tas_kts gs_kts heading_deg track_deg ias_history)
     = normalize_angle
         (atan2 (gs_kts * sin (track_deg * (pi / 180)) - tas_kts * sin (heading_deg * (pi / 180)))
                (gs_kts * cos (track_deg * (pi / 180)) - tas_kts * cos (heading_deg * (pi / 180)))
            * (180 / pi) + 180)
   \<and> headwind (calculate_wind_vector tas_kts gs_kts heading_deg track_deg ias_history)
     = - speed_kts (calculate_wind_vector tas_kts gs_kts heading_deg track_deg ias_history)
       * cos ((direction_from (calculate_wind_vector tas_kts gs_kts heading_deg track_deg ias_history)
                + 180 - track_deg) * (pi / 180))
   \<and> crosswind (calculate_wind_vector tas_kts gs_kts heading_deg track_deg ias_history)
     = speed_kts (calculate_wind_vector tas_kts gs_kts heading_deg track_deg ias_history)
       * sin ((direction_from (calculate_wind_vector tas_kts gs_kts heading_deg track_deg ias_history)
                + 180 - track_deg) * (pi / 180))"
  by (simp add: calculate_wind_vector_def Let_def magnitude_def vector_subtract_def
        DEG_TO_RAD_def RAD_TO_DEG_def power2_eq_square)


text \<open>
  The argument that \<open>calculate_wind_vector\<close> passes to \<open>normalize_angle\<close> lies in
  \<open>(0, 360]\<close>, so at this call the loops run at most once in total.
\<close>

lemma atan2_range: "- pi < atan2 y x \<and> atan2 y x \<le> pi"
proof -
  have lo: "- (pi / 2) < arctan (y / x)" by (rule arctan_lbound)
  have hi: "arctan (y / x) < pi / 2" by (rule arctan_ubound)
  consider (right) "0 < x" | (upper) "x < 0" "0 \<le> y" | (lower) "x < 0" "y < 0"
    | (north) "x = 0" "0 < y" | (south) "x = 0" "y < 0" | (origin) "x = 0" "y = 0"
    by linarith
  then show ?thesis
  proof cases
    case right
    then have "atan2 y x = arctan (y / x)" by (simp add: atan2_def)
    then show ?thesis using lo hi pi_gt_zero by linarith
  next
    case upper
    then have "y / x \<le> 0" by (simp add: divide_nonneg_neg)
    then have "arctan (y / x) \<le> 0" by (simp add: arctan_le_zero_iff)
    moreover have "atan2 y x = arctan (y / x) + pi" using upper by (simp add: atan2_def)
    ultimately show ?thesis using lo pi_gt_zero by linarith
  next
    case lower
    then have "0 < y / x" by (simp add: divide_neg_neg)
    then have "0 < arctan (y / x)" by (simp add: zero_less_arctan_iff)
    moreover have "atan2 y x = arctan (y / x) - pi" using lower by (simp add: atan2_def)
    ultimately show ?thesis using hi pi_gt_zero by linarith
  next
    case north
    then have "atan2 y x = pi / 2" by (simp add: atan2_def)
    then show ?thesis using pi_gt_zero by linarith
  next
    case south
    then have "atan2 y x = - (pi / 2)" by (simp add: atan2_def)
    then show ?thesis using pi_gt_zero by linarith
  next
    case origin
    then have "atan2 y x = 0" by (simp add: atan2_def)
    then show ?thesis using pi_gt_zero by linarith
  qed
qed

lemma wind_direction_argument_range:
  "0 < atan2 y x * RAD_TO_DEG + 180 \<and> atan2 y x * RAD_TO_DEG + 180 \<le> 360"
proof -
  have r: "- pi < atan2 y x" "atan2 y x \<le> pi" using atan2_range [of y x] by simp_all
  have "atan2 y x * (180 / pi) \<le> pi * (180 / pi)"
    using r(2) pi_gt_zero by (intro mult_right_mono) simp_all
  moreover have "- pi * (180 / pi) < atan2 y x * (180 / pi)"
    using r(1) pi_gt_zero by (intro mult_strict_right_mono) simp_all
  ultimately show ?thesis by (simp add: RAD_TO_DEG_def)
qed

lemma wind_direction_iterations:
  "normalize_angle_iterations (atan2 y x * RAD_TO_DEG + 180) \<le> 1"
proof -
  let ?a = "atan2 y x * RAD_TO_DEG + 180"
  have r: "0 < ?a" "?a \<le> 360" using wind_direction_argument_range [of y x] by simp_all
  have "\<lceil>- (?a / 360)\<rceil> \<le> 0" using r(1) by (simp add: ceiling_le_iff)
  moreover have "?a / 360 < of_int 2" using r(2) by simp
  then have "\<lfloor>?a / 360\<rfloor> < 2" by (simp only: floor_less_iff)
  ultimately show ?thesis unfolding normalize_angle_iterations_eq by linarith
qed

subsection \<open>Gust factor\<close>

lemma copy_loop_step:
  "i < length src \<Longrightarrow> copy_loop src i buf = copy_loop src (Suc i) (buf[i := src ! i])"
  by (simp add: copy_loop.simps [of src i buf])

lemma copy_loop_exit: "\<not> i < length src \<Longrightarrow> copy_loop src i buf = buf"
  by (simp add: copy_loop.simps [of src i buf])

lemma gust_loop_step:
  "i < n \<Longrightarrow> gust_loop buf n i m s
     = gust_loop buf n (Suc i) (if m < buf ! i then buf ! i else m) (s + buf ! i)"
  by (simp add: gust_loop.simps [of buf n i m s])

lemma gust_loop_exit: "\<not> i < n \<Longrightarrow> gust_loop buf n i m s = (m, s)"
  by (simp add: gust_loop.simps [of buf n i m s])

lemma copy_loop_copies:
  "i \<le> length src \<Longrightarrow> length buf = length src \<Longrightarrow> take i buf = take i src
   \<Longrightarrow> copy_loop src i buf = src"
proof (induction src i buf rule: copy_loop.induct)
  case (1 src i buf)
  show ?case
  proof (cases "i < length src")
    case True
    have "take (Suc i) (buf[i := src ! i]) = take (Suc i) src"
      using True "1.prems" by (simp add: take_Suc_conv_app_nth)
    then have "copy_loop src (Suc i) (buf[i := src ! i]) = src"
      using True "1.prems" "1.IH" by simp
    then show ?thesis using True by (simp add: copy_loop_step)
  next
    case False
    then have "i = length src" using "1.prems" by simp
    then show ?thesis using "1.prems" by (simp add: copy_loop_exit)
  qed
qed

lemma copy_loop_fresh_buffer: "copy_loop src 0 (replicate (length src) 0) = src"
  by (rule copy_loop_copies) simp_all

lemma gust_loop_scan:
  "i \<le> length buf \<Longrightarrow>
   gust_loop buf (length buf) i m s = (Max (insert m (set (drop i buf))), s + sum_list (drop i buf))"
proof (induction buf "length buf" i m s rule: gust_loop.induct)
  case (1 buf i m s)
  show ?case
  proof (cases "i < length buf")
    case True
    have d: "drop i buf = buf ! i # drop (Suc i) buf"
      using True by (simp add: Cons_nth_drop_Suc)
    have m: "Max (insert (if m < buf ! i then buf ! i else m) (set (drop (Suc i) buf)))
              = Max (insert m (set (drop i buf)))"
      by (cases "set (drop (Suc i) buf) = {}") (auto simp add: d max_def)
    have "gust_loop buf (length buf) (Suc i) (if m < buf ! i then buf ! i else m) (s + buf ! i)
            = (Max (insert (if m < buf ! i then buf ! i else m) (set (drop (Suc i) buf))),
               s + buf ! i + sum_list (drop (Suc i) buf))"
      using True "1.hyps" by simp
    then show ?thesis
      using True m by (simp add: gust_loop_step d add.assoc)
  next
    case False
    then show ?thesis
      using "1.prems" by (simp add: gust_loop_exit)
  qed
qed

lemma calculate_gust_factor_eq:
  "calculate_gust_factor h =
     (if h \<noteq> [] then Max (insert 0 (set h)) - sum_list h / real (length h) else 0)"
proof -
  have "gust_loop h (length h) 0 0 0 = (Max (insert 0 (set h)), sum_list h)"
    using gust_loop_scan [of 0 h 0 0] by simp
  then show ?thesis
    by (simp add: calculate_gust_factor_def copy_loop_fresh_buffer Let_def)
qed

lemma gust_factor_empty_history:
  "gust_factor (calculate_wind_vector tas_kts gs_kts heading_deg track_deg []) = 0"
  by (simp add: calculate_wind_vector_def Let_def calculate_gust_factor_eq)

lemma gust_factor_some_nonnegative_sample:
  assumes "v \<in> set ias_history" and "0 \<le> v"
  shows "gust_factor (calculate_wind_vector tas_kts gs_kts heading_deg track_deg ias_history)
           = Max (set ias_history) - sum_list ias_history / real (length ias_history)"
proof -
  have ne: "ias_history \<noteq> []" using assms(1) by auto
  have "0 \<le> Max (set ias_history)"
    using assms by (meson List.finite_set Max_ge order_trans)
  then have "Max (insert 0 (set ias_history)) = Max (set ias_history)"
    using ne by (simp add: max_def)
  then show ?thesis
    using ne by (simp add: calculate_wind_vector_def Let_def calculate_gust_factor_eq)
qed

text \<open>The sample history of \<^verbatim>\<open>main\<close>: peak 155.8, mean 150.35.\<close>

lemma gust_factor_example:
  "gust_factor (calculate_wind_vector tas_kts gs_kts heading_deg track_deg
      [1455 / 10, 148, 1512 / 10, 1495 / 10, 1558 / 10, 1521 / 10]) = 109 / 20"
  by (simp add: calculate_wind_vector_def Let_def calculate_gust_factor_eq)

text \<open>
  C3. The claim is that a non-empty history gives its maximum minus its mean. The scan
  starts the peak at 0 (\<^verbatim>\<open>double max_ias = 0;\<close>), so on the history \<open>[-1]\<close> the
  gust factor is \<open>0 - (-1) = 1\<close>, where the maximum minus the mean is 0.
\<close>

theorem gust_factor_negative_history:
  "gust_factor (calculate_wind_vector 250 230 90 85 [- 1]) = 1
   \<and> Max (set [- 1 :: real]) - sum_list [- 1] / real (length [- 1 :: real]) = 0"
  by (simp add: calculate_wind_vector_def Let_def calculate_gust_factor_eq)

subsection \<open>Envelope margins\<close>

lemma std_min_not_less:
  "\<not> dless a (std_min a [b, c]) \<and> \<not> dless b (std_min a [b, c]) \<and> \<not> dless c (std_min a [b, c])"
  by (cases a; cases b; cases c) auto

lemma std_min_member: "std_min a [b, c] \<in> {a, b, c}"
  by simp

lemma std_min_least:
  "a \<noteq> NaN \<Longrightarrow> b \<noteq> NaN \<Longrightarrow> c \<noteq> NaN \<Longrightarrow>
   dle (std_min a [b, c]) a \<and> dle (std_min a [b, c]) b \<and> dle (std_min a [b, c]) c"
  by (cases a; cases b; cases c) auto







lemma stall_margin_fallback:
  assumes "cos (bank_deg * (pi / 180)) < 0 \<or> vso_kts \<le> 0"
  shows "stall_margin_pct (calculate_envelope weight_kg bank_deg ias_kts tas_kts mach altitude_ft vso_kts vne_kts mmo)
           = Finite 100"
  using assms
  by (auto simp add: calculate_envelope_def Let_def DEG_TO_RAD_def not_less
        mult_le_0_iff zero_less_mult_iff)









lemma binding_margin_finite_arguments:
  fixes weight_kg bank_deg ias_kts tas_kts mach altitude_ft vso_kts vne_kts mmo :: real
  defines "r \<equiv> calculate_envelope weight_kg bank_deg ias_kts tas_kts mach altitude_ft vso_kts vne_kts mmo"
  assumes regular: "cos (bank_deg * (pi / 180)) \<noteq> 0 \<or> vso_kts \<le> 0"
  shows "stall_margin_pct r \<noteq> NaN
       \<and> dle (min_margin_pct r) (stall_margin_pct r)
       \<and> dle (min_margin_pct r) (vmo_margin_pct r)
       \<and> dle (min_margin_pct r) (mmo_margin_pct r)"
proof -
  have m: "min_margin_pct r = std_min (stall_margin_pct r) [vmo_margin_pct r, mmo_margin_pct r]"
    by (simp add: r_def calculate_envelope_def Let_def)
  have sn: "stall_margin_pct r \<noteq> NaN"
    using regular
    by (auto simp add: r_def calculate_envelope_def Let_def DEG_TO_RAD_def not_less
          mult_le_0_iff zero_less_mult_iff)
  have vn: "vmo_margin_pct r \<noteq> NaN" and on: "mmo_margin_pct r \<noteq> NaN"
    by (simp_all add: r_def calculate_envelope_def Let_def)
  show ?thesis
    unfolding m using sn std_min_least [OF sn vn on] by blast
qed

lemma calculate_envelope_dbl_finite:
  "calculate_envelope_dbl (Finite weight_kg) (Finite bank_deg) (Finite ias_kts) (Finite tas_kts)
      (Finite mach) (Finite altitude_ft) (Finite vso_kts) (Finite vne_kts) (Finite mmo)
   = calculate_envelope weight_kg bank_deg ias_kts tas_kts mach altitude_ft vso_kts vne_kts mmo"
  by (simp add: calculate_envelope_dbl_def calculate_envelope_def Let_def)

lemma std_min_first_nan: "std_min NaN [b, c] = NaN"
  by (cases b; cases c) simp_all

lemma std_min_first_number:
  "a \<noteq> NaN \<Longrightarrow>
   std_min a [b, c] \<noteq> NaN \<and> dle (std_min a [b, c]) a
   \<and> (b \<noteq> NaN \<longrightarrow> dle (std_min a [b, c]) b)
   \<and> (c \<noteq> NaN \<longrightarrow> dle (std_min a [b, c]) c)"
  by (cases a; cases b; cases c) auto

lemma envelope_example_finite:
  "stall_margin_pct (calculate_envelope_dbl (Finite 70000) (Finite 0) (Finite 180) (Finite 200)
       (Finite (1 / 2)) (Finite 35000) (Finite 120) (Finite 350) (Finite (82 / 100))) = Finite 50
   \<and> vmo_margin_pct (calculate_envelope_dbl (Finite 70000) (Finite 0) (Finite 180) (Finite 200)
       (Finite (1 / 2)) (Finite 35000) (Finite 120) (Finite 350) (Finite (82 / 100))) = Finite (340 / 7)
   \<and> mmo_margin_pct (calculate_envelope_dbl (Finite 70000) (Finite 0) (Finite 180) (Finite 200)
       (Finite (1 / 2)) (Finite 35000) (Finite 120) (Finite 350) (Finite (82 / 100))) = Finite (1600 / 41)"
  by (simp add: calculate_envelope_dbl_def Let_def DEG_TO_RAD_def)

lemma envelope_example_infinite_vso:
  "stall_margin_pct (calculate_envelope_dbl (Finite 70000) (Finite 0) (Finite 180) (Finite 200)
       (Finite (1 / 2)) (Finite 35000) PosInf (Finite 350) (Finite (82 / 100))) = NaN
   \<and> vmo_margin_pct (calculate_envelope_dbl (Finite 70000) (Finite 0) (Finite 180) (Finite 200)
       (Finite (1 / 2)) (Finite 35000) PosInf (Finite 350) (Finite (82 / 100))) = Finite (340 / 7)
   \<and> mmo_margin_pct (calculate_envelope_dbl (Finite 70000) (Finite 0) (Finite 180) (Finite 200)
       (Finite (1 / 2)) (Finite 35000) PosInf (Finite 350) (Finite (82 / 100))) = Finite (1600 / 41)
   \<and> min_margin_pct (calculate_envelope_dbl (Finite 70000) (Finite 0) (Finite 180) (Finite 200)
       (Finite (1 / 2)) (Finite 35000) PosInf (Finite 350) (Finite (82 / 100))) = NaN"
  by (simp add: calculate_envelope_dbl_def Let_def DEG_TO_RAD_def)

text \<open>
  C2, as stated, fails when the stall margin is NaN. With an infinite 1g stall speed
  (\<^verbatim>\<open>std::stod\<close> reads \<^verbatim>\<open>inf\<close>), zero bank, IAS 180, Vne 350, Mach 0.5 and Mmo 0.82,
  \<open>Vs_n\<close> is infinite, the stall margin \<open>(180 - \<infinity>) / \<infinity> * 100\<close> is NaN, and
  \<^verbatim>\<open>std::min\<close> keeps the NaN in first position: the binding margin is NaN, not the
  minimum of the three, while the MMO margin is \<open>1600 / 41\<close>.
\<close>

theorem binding_margin_nan_counterexample:
  "min_margin_pct (calculate_envelope_dbl (Finite 70000) (Finite 0) (Finite 180) (Finite 200)
       (Finite (1 / 2)) (Finite 35000) PosInf (Finite 350) (Finite (82 / 100))) = NaN
   \<and> mmo_margin_pct (calculate_envelope_dbl (Finite 70000) (Finite 0) (Finite 180) (Finite 200)
       (Finite (1 / 2)) (Finite 35000) PosInf (Finite 350) (Finite (82 / 100))) = Finite (1600 / 41)
   \<and> \<not> dle (min_margin_pct (calculate_envelope_dbl (Finite 70000) (Finite 0) (Finite 180) (Finite 200)
              (Finite (1 / 2)) (Finite 35000) PosInf (Finite 350) (Finite (82 / 100))))
            (mmo_margin_pct (calculate_envelope_dbl (Finite 70000) (Finite 0) (Finite 180) (Finite 200)
              (Finite (1 / 2)) (Finite 35000) PosInf (Finite 350) (Finite (82 / 100))))"
  using envelope_example_infinite_vso by simp

text \<open>
  C2, amended. For every input, infinities and NaN included, the stall margin is
  \<open>(IAS - Vs_n) / Vs_n * 100\<close> when \<open>Vs_n = Vs_1g * sqrt (1 / cos bank)\<close> is positive
  and 100 otherwise, the VMO margin is \<open>(Vne - IAS) / Vne * 100\<close> when \<open>Vne > 0\<close> and
  100 otherwise, and the MMO margin is \<open>(Mmo - Mach) / Mmo * 100\<close> when \<open>Mmo > 0\<close> and
  100 otherwise, in IEEE arithmetic. The binding margin is one of the three and none of
  them is less than it. When the stall margin is not NaN, the binding margin is a number
  and is at most the stall margin and at most each of the other two that is not NaN: the
  minimum of the three when none is NaN. When the stall margin is NaN, so is the binding
  margin.
\<close>

theorem calculate_envelope_margins:
  fixes weight_kg bank_deg ias_kts tas_kts mach altitude_ft vso_kts vne_kts mmo :: dbl
  defines "r \<equiv> calculate_envelope_dbl weight_kg bank_deg ias_kts tas_kts mach altitude_ft vso_kts vne_kts mmo"
  defines "vs_n \<equiv> dmul vso_kts (dsqrt (ddiv (Finite 1) (dcos (dmul bank_deg (Finite (pi / 180))))))"
  shows "stall_margin_pct r
           = (if dless (Finite 0) vs_n
              then dmul (ddiv (dsub ias_kts vs_n) vs_n) (Finite 100)
              else Finite 100)
       \<and> vmo_margin_pct r
           = (if dless (Finite 0) vne_kts
              then dmul (ddiv (dsub vne_kts ias_kts) vne_kts) (Finite 100)
              else Finite 100)
       \<and> mmo_margin_pct r
           = (if dless (Finite 0) mmo
              then dmul (ddiv (dsub mmo mach) mmo) (Finite 100)
              else Finite 100)
       \<and> min_margin_pct r \<in> {stall_margin_pct r, vmo_margin_pct r, mmo_margin_pct r}
       \<and> \<not> dless (stall_margin_pct r) (min_margin_pct r)
       \<and> \<not> dless (vmo_margin_pct r) (min_margin_pct r)
       \<and> \<not> dless (mmo_margin_pct r) (min_margin_pct r)
       \<and> (stall_margin_pct r = NaN \<longrightarrow> min_margin_pct r = NaN)
       \<and> (stall_margin_pct r \<noteq> NaN \<longrightarrow>
            min_margin_pct r \<noteq> NaN
            \<and> dle (min_margin_pct r) (stall_margin_pct r)
            \<and> (vmo_margin_pct r \<noteq> NaN \<longrightarrow> dle (min_margin_pct r) (vmo_margin_pct r))
            \<and> (mmo_margin_pct r \<noteq> NaN \<longrightarrow> dle (min_margin_pct r) (mmo_margin_pct r)))"
proof -
  have m: "min_margin_pct r = std_min (stall_margin_pct r) [vmo_margin_pct r, mmo_margin_pct r]"
    by (simp add: r_def calculate_envelope_dbl_def Let_def)
  have v: "vmo_margin_pct r
           = (if dless (Finite 0) vne_kts
              then dmul (ddiv (dsub vne_kts ias_kts) vne_kts) (Finite 100)
              else Finite 100)"
    by (simp add: r_def calculate_envelope_dbl_def Let_def)
  have o: "mmo_margin_pct r
           = (if dless (Finite 0) mmo
              then dmul (ddiv (dsub mmo mach) mmo) (Finite 100)
              else Finite 100)"
    by (simp add: r_def calculate_envelope_dbl_def Let_def)
  have s: "stall_margin_pct r
           = (if dless (Finite 0) vs_n
              then dmul (ddiv (dsub ias_kts vs_n) vs_n) (Finite 100)
              else Finite 100)"
    by (simp add: r_def vs_n_def calculate_envelope_dbl_def Let_def DEG_TO_RAD_def)
  have nan: "stall_margin_pct r = NaN \<longrightarrow> min_margin_pct r = NaN"
  proof
    assume "stall_margin_pct r = NaN"
    then have "min_margin_pct r = std_min NaN [vmo_margin_pct r, mmo_margin_pct r]"
      using m by simp
    then show "min_margin_pct r = NaN" by (simp only: std_min_first_nan)
  qed
  have num: "stall_margin_pct r \<noteq> NaN \<longrightarrow>
            min_margin_pct r \<noteq> NaN
            \<and> dle (min_margin_pct r) (stall_margin_pct r)
            \<and> (vmo_margin_pct r \<noteq> NaN \<longrightarrow> dle (min_margin_pct r) (vmo_margin_pct r))
            \<and> (mmo_margin_pct r \<noteq> NaN \<longrightarrow> dle (min_margin_pct r) (mmo_margin_pct r))"
    unfolding m using std_min_first_number by blast
  have mem: "min_margin_pct r \<in> {stall_margin_pct r, vmo_margin_pct r, mmo_margin_pct r}"
    unfolding m by (rule std_min_member)
  have nl: "\<not> dless (stall_margin_pct r) (min_margin_pct r)
       \<and> \<not> dless (vmo_margin_pct r) (min_margin_pct r)
       \<and> \<not> dless (mmo_margin_pct r) (min_margin_pct r)"
    unfolding m by (rule std_min_not_less)
  show ?thesis using s v o mem nl nan num by blast
qed

theorem calculate_envelope_margins_witness:
  "stall_margin_pct (calculate_envelope_dbl (Finite 70000) (Finite 0) (Finite 180) (Finite 200)
       (Finite (1 / 2)) (Finite 35000) (Finite 120) (Finite 350) (Finite (82 / 100))) \<noteq> NaN
   \<and> vmo_margin_pct (calculate_envelope_dbl (Finite 70000) (Finite 0) (Finite 180) (Finite 200)
       (Finite (1 / 2)) (Finite 35000) (Finite 120) (Finite 350) (Finite (82 / 100))) \<noteq> NaN
   \<and> mmo_margin_pct (calculate_envelope_dbl (Finite 70000) (Finite 0) (Finite 180) (Finite 200)
       (Finite (1 / 2)) (Finite 35000) (Finite 120) (Finite 350) (Finite (82 / 100))) \<noteq> NaN
   \<and> dle (min_margin_pct (calculate_envelope_dbl (Finite 70000) (Finite 0) (Finite 180) (Finite 200)
            (Finite (1 / 2)) (Finite 35000) (Finite 120) (Finite 350) (Finite (82 / 100))))
          (vmo_margin_pct (calculate_envelope_dbl (Finite 70000) (Finite 0) (Finite 180) (Finite 200)
            (Finite (1 / 2)) (Finite 35000) (Finite 120) (Finite 350) (Finite (82 / 100))))
   \<and> dle (min_margin_pct (calculate_envelope_dbl (Finite 70000) (Finite 0) (Finite 180) (Finite 200)
            (Finite (1 / 2)) (Finite 35000) (Finite 120) (Finite 350) (Finite (82 / 100))))
          (mmo_margin_pct (calculate_envelope_dbl (Finite 70000) (Finite 0) (Finite 180) (Finite 200)
            (Finite (1 / 2)) (Finite 35000) (Finite 120) (Finite 350) (Finite (82 / 100))))
   \<and> stall_margin_pct (calculate_envelope_dbl (Finite 70000) (Finite 0) (Finite 180) (Finite 200)
       (Finite (1 / 2)) (Finite 35000) PosInf (Finite 350) (Finite (82 / 100))) = NaN
   \<and> min_margin_pct (calculate_envelope_dbl (Finite 70000) (Finite 0) (Finite 180) (Finite 200)
       (Finite (1 / 2)) (Finite 35000) PosInf (Finite 350) (Finite (82 / 100))) = NaN"
proof -
  note a = calculate_envelope_margins [of "Finite 70000" "Finite 0" "Finite 180" "Finite 200"
      "Finite (1 / 2)" "Finite 35000" "Finite 120" "Finite 350" "Finite (82 / 100)"]
  note b = calculate_envelope_margins [of "Finite 70000" "Finite 0" "Finite 180" "Finite 200"
      "Finite (1 / 2)" "Finite 35000" PosInf "Finite 350" "Finite (82 / 100)"]
  have h1: "stall_margin_pct (calculate_envelope_dbl (Finite 70000) (Finite 0) (Finite 180) (Finite 200)
       (Finite (1 / 2)) (Finite 35000) (Finite 120) (Finite 350) (Finite (82 / 100))) \<noteq> NaN"
    and h2: "vmo_margin_pct (calculate_envelope_dbl (Finite 70000) (Finite 0) (Finite 180) (Finite 200)
       (Finite (1 / 2)) (Finite 35000) (Finite 120) (Finite 350) (Finite (82 / 100))) \<noteq> NaN"
    and h3: "mmo_margin_pct (calculate_envelope_dbl (Finite 70000) (Finite 0) (Finite 180) (Finite 200)
       (Finite (1 / 2)) (Finite 35000) (Finite 120) (Finite 350) (Finite (82 / 100))) \<noteq> NaN"
    using envelope_example_finite by simp_all
  have h4: "stall_margin_pct (calculate_envelope_dbl (Finite 70000) (Finite 0) (Finite 180) (Finite 200)
       (Finite (1 / 2)) (Finite 35000) PosInf (Finite 350) (Finite (82 / 100))) = NaN"
    using envelope_example_infinite_vso by simp
  show ?thesis using a b h1 h2 h3 h4 by blast
qed




text \<open>
  C10. The weight, true airspeed and altitude arguments of \<open>calculate_envelope\<close> and
  the true airspeed and weight arguments of \<open>calculate_glide_reach\<close> have no influence
  on any field of the result.
\<close>

theorem reserved_parameters_unused:
  "calculate_envelope weight_kg bank_deg ias_kts tas_kts mach altitude_ft vso_kts vne_kts mmo
     = calculate_envelope weight_kg' bank_deg ias_kts tas_kts' mach altitude_ft' vso_kts vne_kts mmo
   \<and> calculate_glide_reach agl_ft tas_kts weight_kg headwind_kts
     = calculate_glide_reach agl_ft tas_kts' weight_kg' headwind_kts"
  by (simp add: calculate_envelope_def calculate_glide_reach_def)

subsection \<open>Energy state\<close>

text \<open>
  C5. The specific energy height is \<open>v\<^sup>2 / (2 g) + altitude\<close>, with the speed in
  metres per second, the altitude in metres and the sum converted to feet; the rate is the
  vertical speed; the trend is Increasing exactly when the rate is above 50, Decreasing
  exactly when it is below -50, and Stable otherwise.
\<close>

theorem calculate_energy_spec:
  "specific_energy_ft (calculate_energy tas_kts altitude_ft vs_fpm)
     = ((tas_kts * KTS_TO_MS)\<^sup>2 / (2 * GRAVITY) + altitude_ft * FT_TO_M) * M_TO_FT
   \<and> specific_energy_rate (calculate_energy tas_kts altitude_ft vs_fpm) = vs_fpm
   \<and> (trend (calculate_energy tas_kts altitude_ft vs_fpm) = Increasing) = (50 < vs_fpm)
   \<and> (trend (calculate_energy tas_kts altitude_ft vs_fpm) = Decreasing) = (vs_fpm < - 50)
   \<and> (trend (calculate_energy tas_kts altitude_ft vs_fpm) = Stable)
       = (\<not> 50 < vs_fpm \<and> \<not> vs_fpm < - 50)"
  by (simp add: calculate_energy_def Let_def power2_eq_square)

subsection \<open>Glide reach\<close>



end
